theory Spec2Isabelle
  imports Main
begin

section \<open>Python values\<close>

text \<open>
  The native messaging host \<^verbatim>\<open>native_host.py\<close> exchanges JSON messages over a byte pipe.
  A Python \<^verbatim>\<open>bytes\<close> object is a list of 8-bit characters.  A decoded message is a Python
  value built from \<^verbatim>\<open>None\<close>, booleans, integers, strings, lists and dictionaries; a
  dictionary is an association list with distinct keys in insertion order.  Python floats
  are not part of the model.
\<close>

type_synonym bytes = "char list"

datatype json =
    JNull
  | JBool bool
  | JInt int
  | JStr string
  | JArr "json list"
  | JObj "(string \<times> json) list"

datatype exn =
    StructError
  | JSONDecodeError
  | UnicodeDecodeError
  | AttributeError
  | TypeError
  | KeyError
  | KeyboardInterrupt

text \<open>Truthiness of a Python value, as \<^verbatim>\<open>if x:\<close> and \<^verbatim>\<open>not x\<close> read it.\<close>

fun truthy :: "json \<Rightarrow> bool" where
  "truthy JNull = False"
| "truthy (JBool b) = b"
| "truthy (JInt i) = (i \<noteq> 0)"
| "truthy (JStr s) = (s \<noteq> [])"
| "truthy (JArr xs) = (xs \<noteq> [])"
| "truthy (JObj kvs) = (kvs \<noteq> [])"

text \<open>
  \<^verbatim>\<open>d.get(k)\<close>: the value stored under \<^verbatim>\<open>k\<close>, \<^verbatim>\<open>None\<close> when the key is missing.  Only a
  dictionary has the method; on any other value the call raises AttributeError.
\<close>

fun dict_get :: "json \<Rightarrow> string \<Rightarrow> exn + json" where
  "dict_get (JObj kvs) k = (case map_of kvs k of None \<Rightarrow> Inr JNull | Some v \<Rightarrow> Inr v)"
| "dict_get _ k = Inl AttributeError"

text \<open>\<^verbatim>\<open>d[k] = v\<close> on an insertion-ordered dictionary.\<close>

fun dict_set :: "string \<Rightarrow> json \<Rightarrow> (string \<times> json) list \<Rightarrow> (string \<times> json) list" where
  "dict_set k v [] = [(k, v)]"
| "dict_set k v (p # ps) = (if fst p = k then (k, v) # ps else p # dict_set k v ps)"

section \<open>The framed channel\<close>

text \<open>
  \<^verbatim>\<open>sys.stdin.buffer.read(n)\<close> on the blocking pipe returns the next \<^verbatim>\<open>n\<close> bytes, or fewer
  when the stream closes first.  The argument \<open>inp\<close> is everything the peer writes before
  it closes the pipe; the second component is what is left to read.
\<close>

definition stdin_read :: "nat \<Rightarrow> bytes \<Rightarrow> bytes \<times> bytes" where
  "stdin_read n inp = (take n inp, drop n inp)"

text \<open>\<^verbatim>\<open>struct.unpack('<I', raw)[0]\<close>: needs exactly four bytes, little-endian.\<close>

definition struct_unpack_I :: "bytes \<Rightarrow> exn + nat" where
  "struct_unpack_I raw =
     (if length raw = 4
      then Inr (of_char (raw ! 0) + 256 * of_char (raw ! 1)
                + 65536 * of_char (raw ! 2) + 16777216 * of_char (raw ! 3))
      else Inl StructError)"

text \<open>\<^verbatim>\<open>struct.pack('<I', n)\<close>: raises when \<^verbatim>\<open>n\<close> does not fit 32 bits.\<close>

definition struct_pack_I :: "nat \<Rightarrow> exn + bytes" where
  "struct_pack_I n =
     (if n < 2 ^ 32
      then Inr [char_of n, char_of (n div 256), char_of (n div 65536), char_of (n div 16777216)]
      else Inl StructError)"

text \<open>
  \<^verbatim>\<open>read_message\<close> (lines 27-33).  The decoder \<open>loads\<close> stands for the library call
  \<^verbatim>\<open>json.loads(data.decode('utf-8'))\<close>.  The function returns \<^verbatim>\<open>None\<close> (\<open>JNull\<close>) when
  the first read yields no byte, and otherwise whatever the decoder makes of the bytes
  the second read delivered.
\<close>

definition read_message :: "(bytes \<Rightarrow> exn + json) \<Rightarrow> bytes \<Rightarrow> (exn + json) \<times> bytes" where
  "read_message loads inp =
     (let (raw_length, inp1) = stdin_read 4 inp in
      if raw_length = [] then (Inr JNull, inp1)
      else (case struct_unpack_I raw_length of
              Inl e \<Rightarrow> (Inl e, inp1)
            | Inr len \<Rightarrow> (let (data, inp2) = stdin_read len inp1 in (loads data, inp2))))"

text \<open>
  \<^verbatim>\<open>send_message\<close> (lines 36-40), run by one context with no other writer in between:
  the prefix and the payload are appended to what stdout already holds.  The encoder
  \<open>dumps\<close> stands for \<^verbatim>\<open>json.dumps(message).encode('utf-8')\<close>.
\<close>

definition send_message :: "(json \<Rightarrow> bytes) \<Rightarrow> json \<Rightarrow> bytes \<Rightarrow> exn + bytes" where
  "send_message dumps message out =
     (let encoded = dumps message in
      case struct_pack_I (length encoded) of
        Inl e \<Rightarrow> Inl e
      | Inr prefix \<Rightarrow> Inr (out @ prefix @ encoded))"

section \<open>A concrete JSON codec\<close>

text \<open>
  The codec is library code (\<^verbatim>\<open>json.loads\<close>, \<^verbatim>\<open>json.dumps\<close>), so the host's functions take
  it as a parameter.  Closed instances need a codec to run, and the one below follows
  the library on the ASCII, float-free fragment of JSON: \<^verbatim>\<open>null\<close>, \<^verbatim>\<open>true\<close>, \<^verbatim>\<open>false\<close>,
  integers, strings with their escapes, arrays and objects (a repeated key keeps its
  first position and its last value, as a Python dictionary does), and the four
  whitespace characters.  On a payload outside the fragment (a float literal, a byte
  above 0x7f, a code point above 0xff) the library returns a value the datatype
  \<^typ>\<open>json\<close> does not have; the decoder below answers JSONDecodeError there, and nothing
  in this development evaluates it on such a payload.  The recursion of the parser is
  bounded by the length of the payload, passed as its first argument.
\<close>

definition is_ws :: "char \<Rightarrow> bool" where
  "is_ws c = (c = CHR '' '' \<or> c = CHR 0x09 \<or> c = CHR 0x0A \<or> c = CHR 0x0D)"

definition skip_ws :: "string \<Rightarrow> string" where
  "skip_ws cs = dropWhile is_ws cs"

definition is_digit :: "char \<Rightarrow> bool" where
  "is_digit c = ((48::nat) \<le> of_char c \<and> of_char c \<le> (57::nat))"

fun parse_digits :: "nat \<Rightarrow> string \<Rightarrow> nat \<times> string" where
  "parse_digits acc [] = (acc, [])"
| "parse_digits acc (c # cs) =
     (if is_digit c then parse_digits (10 * acc + (of_char c - 48)) cs else (acc, c # cs))"

definition parse_number :: "string \<Rightarrow> (json \<times> string) option" where
  "parse_number cs =
     (let neg = (cs \<noteq> [] \<and> hd cs = CHR ''-'');
          ds = (if neg then tl cs else cs)
      in case ds of
           [] \<Rightarrow> None
         | d # r \<Rightarrow>
             if \<not> is_digit d then None
             else (let (n, rest) = (if d = CHR ''0'' then (0, r) else parse_digits 0 ds) in
                   if rest \<noteq> [] \<and> hd rest \<in> {CHR ''.'', CHR ''e'', CHR ''E''} then None
                   else Some (JInt (if neg then - int n else int n), rest)))"

definition hex_val :: "char \<Rightarrow> nat option" where
  "hex_val c =
     (let n = (of_char c :: nat) in
      if 48 \<le> n \<and> n \<le> 57 then Some (n - 48)
      else if 97 \<le> n \<and> n \<le> 102 then Some (n - 87)
      else if 65 \<le> n \<and> n \<le> 70 then Some (n - 55)
      else None)"

definition unescape :: "char \<Rightarrow> char option" where
  "unescape e =
     (if e = CHR 0x22 then Some (CHR 0x22)
      else if e = CHR 0x5C then Some (CHR 0x5C)
      else if e = CHR ''/'' then Some (CHR ''/'')
      else if e = CHR ''b'' then Some (CHR 0x08)
      else if e = CHR ''f'' then Some (CHR 0x0C)
      else if e = CHR ''n'' then Some (CHR 0x0A)
      else if e = CHR ''r'' then Some (CHR 0x0D)
      else if e = CHR ''t'' then Some (CHR 0x09)
      else None)"

definition hex4 :: "string \<Rightarrow> nat option" where
  "hex4 hs =
     (case map hex_val hs of
        [Some a, Some b, Some c, Some d] \<Rightarrow> Some (4096 * a + 256 * b + 16 * c + d)
      | _ \<Rightarrow> None)"

fun parse_string :: "string \<Rightarrow> string \<Rightarrow> (string \<times> string) option" where
  "parse_string acc [] = None"
| "parse_string acc (c # cs) =
     (if c = CHR 0x22 then Some (rev acc, cs)
      else if c = CHR 0x5C then
        (case cs of
           [] \<Rightarrow> None
         | e # r \<Rightarrow>
             if e = CHR ''u'' then
               (case hex4 (take 4 r) of
                  None \<Rightarrow> None
                | Some n \<Rightarrow> if n < 256 then parse_string (char_of n # acc) (drop 4 r) else None)
             else (case unescape e of
                     None \<Rightarrow> None
                   | Some x \<Rightarrow> parse_string (x # acc) r))
      else if (of_char c :: nat) < 32 \<or> (128::nat) \<le> of_char c then None
      else parse_string (c # acc) cs)"

fun parse_value :: "nat \<Rightarrow> string \<Rightarrow> (json \<times> string) option"
  and parse_elements :: "nat \<Rightarrow> json list \<Rightarrow> string \<Rightarrow> (json \<times> string) option"
  and parse_members :: "nat \<Rightarrow> (string \<times> json) list \<Rightarrow> string \<Rightarrow> (json \<times> string) option"
where
  "parse_value 0 cs = None"
| "parse_value (Suc n) cs =
    (case cs of
       [] \<Rightarrow> None
     | c # r \<Rightarrow>
       if c = CHR 0x22 then
         (case parse_string [] r of None \<Rightarrow> None | Some (s, rest) \<Rightarrow> Some (JStr s, rest))
       else if c = CHR ''['' then
         (case skip_ws r of
            [] \<Rightarrow> None
          | d # r' \<Rightarrow> if d = CHR '']'' then Some (JArr [], r') else parse_elements n [] (d # r'))
       else if c = CHR ''{'' then
         (case skip_ws r of
            [] \<Rightarrow> None
          | d # r' \<Rightarrow> if d = CHR ''}'' then Some (JObj [], r') else parse_members n [] (d # r'))
       else if take 4 cs = ''null'' then Some (JNull, drop 4 cs)
       else if take 4 cs = ''true'' then Some (JBool True, drop 4 cs)
       else if take 5 cs = ''false'' then Some (JBool False, drop 5 cs)
       else parse_number cs)"
| "parse_elements 0 acc cs = None"
| "parse_elements (Suc n) acc cs =
    (case parse_value n cs of
       None \<Rightarrow> None
     | Some (v, r) \<Rightarrow>
        (case skip_ws r of
           [] \<Rightarrow> None
         | d # r' \<Rightarrow>
             if d = CHR '','' then parse_elements n (acc @ [v]) (skip_ws r')
             else if d = CHR '']'' then Some (JArr (acc @ [v]), r')
             else None))"
| "parse_members 0 acc cs = None"
| "parse_members (Suc n) acc cs =
    (case cs of
       [] \<Rightarrow> None
     | q # r \<Rightarrow>
        if q \<noteq> CHR 0x22 then None
        else (case parse_string [] r of
                None \<Rightarrow> None
              | Some (k, r1) \<Rightarrow>
                 (case skip_ws r1 of
                    [] \<Rightarrow> None
                  | col # r2 \<Rightarrow>
                     if col \<noteq> CHR '':'' then None
                     else (case parse_value n (skip_ws r2) of
                             None \<Rightarrow> None
                           | Some (v, r3) \<Rightarrow>
                              (case skip_ws r3 of
                                 [] \<Rightarrow> None
                               | d # r4 \<Rightarrow>
                                  if d = CHR '','' then parse_members n (dict_set k v acc) (skip_ws r4)
                                  else if d = CHR ''}'' then Some (JObj (dict_set k v acc), r4)
                                  else None)))))"

text \<open>\<^verbatim>\<open>json.loads(data.decode('utf-8'))\<close> on the fragment.\<close>

definition json_loads :: "bytes \<Rightarrow> exn + json" where
  "json_loads data =
     (case parse_value (Suc (length data)) (skip_ws data) of
        None \<Rightarrow> Inl JSONDecodeError
      | Some (v, rest) \<Rightarrow> if skip_ws rest = [] then Inr v else Inl JSONDecodeError)"

text \<open>\<^verbatim>\<open>json.dumps(message).encode('utf-8')\<close> with the default separators and \<^verbatim>\<open>ensure_ascii\<close>.\<close>

fun show_nat :: "nat \<Rightarrow> string" where
  "show_nat n = (if n < 10 then [char_of (48 + n)] else show_nat (n div 10) @ [char_of (48 + n mod 10)])"

declare show_nat.simps [simp del]

definition show_int :: "int \<Rightarrow> string" where
  "show_int i = (if i < 0 then CHR ''-'' # show_nat (nat (- i)) else show_nat (nat i))"

definition hex_digit :: "nat \<Rightarrow> char" where
  "hex_digit n = (if n < 10 then char_of (48 + n) else char_of (87 + n))"

definition escape_char :: "char \<Rightarrow> string" where
  "escape_char c =
     (if c = CHR 0x22 then [CHR 0x5C, CHR 0x22]
      else if c = CHR 0x5C then [CHR 0x5C, CHR 0x5C]
      else if c = CHR 0x0A then [CHR 0x5C, CHR ''n'']
      else if c = CHR 0x0D then [CHR 0x5C, CHR ''r'']
      else if c = CHR 0x09 then [CHR 0x5C, CHR ''t'']
      else if c = CHR 0x08 then [CHR 0x5C, CHR ''b'']
      else if c = CHR 0x0C then [CHR 0x5C, CHR ''f'']
      else if (32::nat) \<le> of_char c \<and> of_char c \<le> (126::nat) then [c]
      else [CHR 0x5C, CHR ''u'', CHR ''0'', CHR ''0'',
            hex_digit (of_char c div 16), hex_digit (of_char c mod 16)])"

definition quote :: "string \<Rightarrow> string" where
  "quote s = CHR 0x22 # concat (map escape_char s) @ [CHR 0x22]"

fun join :: "string \<Rightarrow> string list \<Rightarrow> string" where
  "join sep [] = []"
| "join sep [x] = x"
| "join sep (x # y # ys) = x @ sep @ join sep (y # ys)"

fun json_dumps :: "json \<Rightarrow> bytes" where
  "json_dumps JNull = ''null''"
| "json_dumps (JBool b) = (if b then ''true'' else ''false'')"
| "json_dumps (JInt i) = show_int i"
| "json_dumps (JStr s) = quote s"
| "json_dumps (JArr xs) = ''['' @ join '', '' (map json_dumps xs) @ '']''"
| "json_dumps (JObj kvs) =
     ''{'' @ join '', '' (map (\<lambda>kv. quote (fst kv) @ '': '' @ json_dumps (snd kv)) kvs) @ ''}''"

section \<open>The environment of the host\<close>

text \<open>
  What the host gets from outside is a parameter of the model.  An HTTP response is
  what \<^verbatim>\<open>urllib.request.urlopen\<close> hands back: status, final URL, the two headers the
  host reads, and the body the server will deliver.
\<close>

record response =
  res_status :: int
  res_url :: string
  res_content_length :: "string option"
  res_content_range :: "string option"
  res_body :: bytes

text \<open>
  \<^item> \<open>env_loads\<close>: \<^verbatim>\<open>json.loads(data.decode('utf-8'))\<close>;
  \<^item> \<open>env_uuid4\<close>: the 128-bit integer of the k-th \<^verbatim>\<open>uuid.uuid4()\<close>;
  \<^item> \<open>env_urlopen\<close>: lines 91-100, the request built from the start message and, when
    \<^verbatim>\<open>downloaded\<close> is not zero, the header \<^verbatim>\<open>Range: bytes=<downloaded>-\<close>; \<open>Inl\<close> is the
    text of the exception raised;
  \<^item> \<open>env_tempfile\<close>: the name of the k-th \<^verbatim>\<open>NamedTemporaryFile\<close>, given the message's
    \<^verbatim>\<open>filename\<close>;
  \<^item> \<open>env_handler\<close>: the answer of \<^verbatim>\<open>perform_preroll\<close>, \<^verbatim>\<open>perform_move\<close>,
    \<^verbatim>\<open>choose_folder\<close> or \<^verbatim>\<open>stat_path\<close> to the k-th such call; each of them catches
    every exception and returns a dictionary.
\<close>

record env =
  env_loads :: "bytes \<Rightarrow> exn + json"
  env_uuid4 :: "nat \<Rightarrow> nat"
  env_urlopen :: "json \<Rightarrow> nat option \<Rightarrow> string + response"
  env_tempfile :: "nat \<Rightarrow> json \<Rightarrow> string"
  env_handler :: "nat \<Rightarrow> string \<Rightarrow> json \<Rightarrow> json"

text \<open>\<^verbatim>\<open>str(uuid)\<close>: 32 hexadecimal digits in groups of 8, 4, 4, 4 and 12.\<close>

fun hex_be :: "nat \<Rightarrow> nat \<Rightarrow> string" where
  "hex_be 0 n = []"
| "hex_be (Suc k) n = hex_be k (n div 16) @ [hex_digit (n mod 16)]"

definition uuid_str :: "nat \<Rightarrow> string" where
  "uuid_str n =
     (let h = hex_be 32 n in
      take 8 h @ ''-'' @ take 4 (drop 8 h) @ ''-'' @ take 4 (drop 12 h) @ ''-''
        @ take 4 (drop 16 h) @ ''-'' @ drop 20 h)"

text \<open>
  \<^verbatim>\<open>int(cl)\<close> on a header value: surrounding whitespace, an optional sign, decimal
  digits with single underscores between them; \<open>None\<close> where Python raises ValueError.
  (The interpreter's limit on the number of digits is not modelled.)
\<close>

definition py_space :: "char \<Rightarrow> bool" where
  "py_space c =
     (let n = (of_char c :: nat) in
      (9 \<le> n \<and> n \<le> 13) \<or> (28 \<le> n \<and> n \<le> 32) \<or> n = 133 \<or> n = 160)"

definition py_strip :: "string \<Rightarrow> string" where
  "py_strip s = rev (dropWhile py_space (rev (dropWhile py_space s)))"

fun int_digits :: "nat \<Rightarrow> string \<Rightarrow> nat option" where
  "int_digits acc [] = Some acc"
| "int_digits acc (c # cs) =
     (if is_digit c then int_digits (10 * acc + (of_char c - 48)) cs
      else if c = CHR ''_'' \<and> cs \<noteq> [] \<and> is_digit (hd cs) then int_digits acc cs
      else None)"

definition py_int :: "string \<Rightarrow> int option" where
  "py_int s =
     (let t = py_strip s;
          neg = (t \<noteq> [] \<and> hd t = CHR ''-'');
          u = (if t \<noteq> [] \<and> (hd t = CHR ''-'' \<or> hd t = CHR ''+'') then tl t else t)
      in if u = [] \<or> \<not> is_digit (hd u) then None
         else (case int_digits 0 u of
                 None \<Rightarrow> None
               | Some n \<Rightarrow> Some (if neg then - int n else int n)))"

text \<open>Lines 103-109: the total reported in progress events.\<close>

definition header_truthy :: "string option \<Rightarrow> bool" where
  "header_truthy h = (case h of None \<Rightarrow> False | Some v \<Rightarrow> v \<noteq> [])"

definition response_total :: "response \<Rightarrow> nat \<Rightarrow> int option" where
  "response_total res downloaded =
     (case res_content_length res of
        None \<Rightarrow> None
      | Some cl \<Rightarrow>
          if downloaded \<noteq> 0 \<and> header_truthy (res_content_range res)
          then (case py_int cl of None \<Rightarrow> None | Some n \<Rightarrow> Some (n + int downloaded))
          else (case py_int cl of None \<Rightarrow> None | Some n \<Rightarrow> Some n))"

section \<open>The state of the process\<close>

text \<open>
  The dictionary stored in \<^verbatim>\<open>DOWNLOADS\<close> for one download.  The dispatcher writes the two
  flags, the retrieval loop writes \<^verbatim>\<open>downloaded\<close> and \<^verbatim>\<open>path\<close>; the keys \<^verbatim>\<open>id\<close>, \<^verbatim>\<open>url\<close> and
  \<^verbatim>\<open>thread\<close> are never read and are left out.
\<close>

record info =
  info_pause :: bool
  info_cancel :: bool
  info_downloaded :: "nat option"
  info_path :: "string option"

text \<open>
  The program points of \<^verbatim>\<open>threaded_download\<close>: one for each place where the thread reads
  a flag another thread may write, or performs input or output.
\<close>

datatype pc =
    Init
  | Request
  | OpenFile
  | CheckCancel
  | CheckPause
  | PollPause
  | PollCancel
  | AfterPoll
  | ReadChunk
  | Dead

datatype fmode = WB | AB

record transfer =
  t_pc :: pc
  t_did :: string
  t_req :: json
  t_info :: nat
  downloaded :: nat
  t_mode :: fmode
  t_status :: int
  t_final_url :: string
  t_total :: "int option"
  t_body :: bytes
  t_path :: string

datatype sender = Dispatcher | Transfer nat

datatype main_result = Returned | Raised exn

text \<open>
  Lines 355-359: the script catches KeyboardInterrupt and ends normally; any other
  exception leaves \<^verbatim>\<open>main\<close> uncaught and the interpreter exits with status 1.
\<close>

definition script_exit :: "main_result \<Rightarrow> int" where
  "script_exit r =
     (case r of Returned \<Rightarrow> 0 | Raised x \<Rightarrow> if x = KeyboardInterrupt then 0 else 1)"

datatype main_pc = Reading | Responding json | Exited int

text \<open>
  The process: what is left of stdin, the calls of \<^verbatim>\<open>send_message\<close> in the order they
  were made (with the context that made each), the dispatcher's program point, the
  registry \<^verbatim>\<open>DOWNLOADS\<close> (a dictionary of references to the \<open>info\<close> objects on the heap),
  the threads in the order they were started, and the files.
\<close>

record system =
  stdin :: bytes
  sent :: "(sender \<times> json) list"
  main :: main_pc
  DOWNLOADS :: "string \<rightharpoonup> nat"
  heap :: "nat \<Rightarrow> info"
  threads :: "transfer list"
  files :: "string \<rightharpoonup> bytes"
  temp_count :: nat
  handler_calls :: nat

definition boot :: "bytes \<Rightarrow> system" where
  "boot inp =
     \<lparr>stdin = inp, sent = [], main = Reading, DOWNLOADS = Map.empty,
      heap = (\<lambda>a. \<lparr>info_pause = False, info_cancel = False,
                    info_downloaded = None, info_path = None\<rparr>),
      threads = [], files = Map.empty, temp_count = 0, handler_calls = 0\<rparr>"

section \<open>The dispatcher\<close>

definition ok_id :: "json \<Rightarrow> json" where
  "ok_id did = JObj [(''ok'', JBool True), (''id'', did)]"

definition error_response :: "string \<Rightarrow> json" where
  "error_response msg = JObj [(''ok'', JBool False), (''error'', JStr msg)]"

text \<open>
  \<^verbatim>\<open>did and did in DOWNLOADS\<close>: a falsy value stops the test; a list or a dictionary
  cannot be hashed, and the membership test raises TypeError; a string is looked up;
  any other value is no key of the registry.
\<close>

fun known_id :: "(string \<rightharpoonup> nat) \<Rightarrow> json \<Rightarrow> exn + nat option" where
  "known_id reg (JStr s) = Inr (if s = [] then None else reg s)"
| "known_id reg (JArr xs) = (if xs = [] then Inr None else Inl TypeError)"
| "known_id reg (JObj kvs) = (if kvs = [] then Inr None else Inl TypeError)"
| "known_id reg _ = Inr None"

text \<open>Lines 321-341: the three control commands differ in the flag they write.\<close>

definition set_flag :: "string \<Rightarrow> info \<Rightarrow> info" where
  "set_flag t i =
     (if t = ''download_pause'' then i\<lparr>info_pause := True\<rparr>
      else if t = ''download_resume'' then i\<lparr>info_pause := False\<rparr>
      else i\<lparr>info_cancel := True\<rparr>)"

definition control :: "string \<Rightarrow> json \<Rightarrow> system \<Rightarrow> system" where
  "control t msg s =
     (case dict_get msg ''id'' of
        Inl x \<Rightarrow> s\<lparr>main := Exited (script_exit (Raised x))\<rparr>
      | Inr did \<Rightarrow>
          (case known_id (DOWNLOADS s) did of
             Inl x \<Rightarrow> s\<lparr>main := Exited (script_exit (Raised x))\<rparr>
           | Inr None \<Rightarrow> s\<lparr>main := Responding (error_response ''unknown id'')\<rparr>
           | Inr (Some a) \<Rightarrow>
               s\<lparr>heap := (heap s)(a := set_flag t (heap s a)), main := Responding (ok_id did)\<rparr>))"

text \<open>Lines 313-320: a new entry, a new thread, then the acknowledgement.\<close>

definition new_info :: info where
  "new_info = \<lparr>info_pause = False, info_cancel = False, info_downloaded = None, info_path = None\<rparr>"

definition new_transfer :: "string \<Rightarrow> json \<Rightarrow> transfer" where
  "new_transfer did msg =
     \<lparr>t_pc = Init, t_did = did, t_req = msg, t_info = 0, downloaded = 0, t_mode = WB,
      t_status = 0, t_final_url = [], t_total = None, t_body = [], t_path = []\<rparr>"

definition download_start :: "env \<Rightarrow> json \<Rightarrow> system \<Rightarrow> system" where
  "download_start e msg s =
     (let did = uuid_str (env_uuid4 e (length (threads s)));
          a = length (threads s)
      in s\<lparr>DOWNLOADS := (DOWNLOADS s)(did \<mapsto> a),
           heap := (heap s)(a := new_info),
           threads := threads s @ [new_transfer did msg],
           main := Responding (ok_id (JStr did))\<rparr>)"

definition external :: "env \<Rightarrow> string \<Rightarrow> json \<Rightarrow> system \<Rightarrow> system" where
  "external e t msg s =
     s\<lparr>main := Responding (env_handler e (handler_calls s) t msg),
       handler_calls := Suc (handler_calls s)\<rparr>"

text \<open>Lines 305-352: the chain of comparisons on the message's \<^verbatim>\<open>type\<close>.\<close>

definition dispatch :: "env \<Rightarrow> json \<Rightarrow> json \<Rightarrow> system \<Rightarrow> system" where
  "dispatch e t msg s =
     (if t = JStr ''preroll'' then external e ''preroll'' msg s
      else if t = JStr ''download'' then
        s\<lparr>main := Responding (error_response ''use interactive download via connectNative'')\<rparr>
      else if t = JStr ''download_start'' then download_start e msg s
      else if t = JStr ''download_pause'' then control ''download_pause'' msg s
      else if t = JStr ''download_resume'' then control ''download_resume'' msg s
      else if t = JStr ''download_cancel'' then control ''download_cancel'' msg s
      else if t = JStr ''move'' then external e ''move'' msg s
      else if t = JStr ''choose_folder'' then external e ''choose_folder'' msg s
      else if t = JStr ''stat_path'' then external e ''stat_path'' msg s
      else s\<lparr>main := Responding (error_response ''unknown type'')\<rparr>)"

text \<open>
  One step of \<^verbatim>\<open>main\<close>: either the pass from \<^verbatim>\<open>read_message\<close> to the point where the
  answer is ready (lines 302-352), or the \<^verbatim>\<open>send_message\<close> call that delivers it.  An
  exception no handler catches ends the process.
\<close>

definition main_step :: "env \<Rightarrow> system \<Rightarrow> system" where
  "main_step e s =
     (case main s of
        Exited c \<Rightarrow> s
      | Responding r \<Rightarrow> s\<lparr>sent := sent s @ [(Dispatcher, r)], main := Reading\<rparr>
      | Reading \<Rightarrow>
          (case read_message (env_loads e) (stdin s) of
             (Inl x, rest) \<Rightarrow> s\<lparr>stdin := rest, main := Exited (script_exit (Raised x))\<rparr>
           | (Inr msg, rest) \<Rightarrow>
               if msg = JNull then s\<lparr>stdin := rest, main := Exited (script_exit Returned)\<rparr>
               else (case dict_get msg ''type'' of
                       Inl x \<Rightarrow> s\<lparr>stdin := rest, main := Exited (script_exit (Raised x))\<rparr>
                     | Inr t \<Rightarrow> dispatch e t msg (s\<lparr>stdin := rest\<rparr>))))"

section \<open>The retrieval loop\<close>

definition event :: "string \<Rightarrow> string \<Rightarrow> (string \<times> json) list \<Rightarrow> json" where
  "event ty did kvs = JObj ([(''type'', JStr ty), (''id'', JStr did)] @ kvs)"

definition total_json :: "int option \<Rightarrow> json" where
  "total_json t = (case t of None \<Rightarrow> JNull | Some n \<Rightarrow> JInt n)"

definition cancelled_event :: "transfer \<Rightarrow> json" where
  "cancelled_event t = event ''cancelled'' (t_did t) []"

definition paused_event :: "transfer \<Rightarrow> json" where
  "paused_event t = event ''paused'' (t_did t) [(''downloaded'', JInt (int (downloaded t)))]"

definition progress_event :: "transfer \<Rightarrow> json" where
  "progress_event t =
     event ''progress'' (t_did t)
       [(''downloaded'', JInt (int (downloaded t))), (''path'', JStr (t_path t)),
        (''total'', total_json (t_total t))]"

definition done_event :: "transfer \<Rightarrow> json" where
  "done_event t =
     event ''done'' (t_did t)
       [(''path'', JStr (t_path t)), (''size'', JInt (int (downloaded t))),
        (''finalUrl'', JStr (t_final_url t)), (''status'', JInt (t_status t))]"

definition error_event :: "transfer \<Rightarrow> string \<Rightarrow> json" where
  "error_event t msg = event ''error'' (t_did t) [(''error'', JStr msg)]"

text \<open>The thread sends one last message and returns.\<close>

definition finish :: "nat \<Rightarrow> transfer \<Rightarrow> json \<Rightarrow> system \<Rightarrow> system" where
  "finish i t ev s =
     s\<lparr>sent := sent s @ [(Transfer i, ev)], threads := (threads s)[i := t\<lparr>t_pc := Dead\<rparr>]\<rparr>"

definition goto :: "nat \<Rightarrow> transfer \<Rightarrow> pc \<Rightarrow> system \<Rightarrow> system" where
  "goto i t p s = s\<lparr>threads := (threads s)[i := t\<lparr>t_pc := p\<rparr>]\<rparr>"

definition chunk_size :: nat where
  "chunk_size = 8192"

text \<open>Lines 84-88.  The lookup is outside the \<^verbatim>\<open>try\<close>: a missing key would end the thread
  with no message.\<close>

definition do_init :: "nat \<Rightarrow> transfer \<Rightarrow> system \<Rightarrow> system" where
  "do_init i t s =
     (case DOWNLOADS s (t_did t) of
        None \<Rightarrow> goto i t Dead s
      | Some a \<Rightarrow>
          (let d = (case info_downloaded (heap s a) of None \<Rightarrow> 0 | Some d \<Rightarrow> d)
           in goto i (t\<lparr>t_info := a, downloaded := d,
                        t_mode := (if d \<noteq> 0 then AB else WB)\<rparr>) Request s))"

text \<open>Lines 91-109.\<close>

definition do_request :: "env \<Rightarrow> nat \<Rightarrow> transfer \<Rightarrow> system \<Rightarrow> system" where
  "do_request e i t s =
     (case env_urlopen e (t_req t) (if downloaded t \<noteq> 0 then Some (downloaded t) else None) of
        Inl msg \<Rightarrow> finish i t (error_event t msg) s
      | Inr res \<Rightarrow>
          goto i (t\<lparr>t_status := res_status res, t_final_url := res_url res,
                    t_total := response_total res (downloaded t),
                    t_body := res_body res\<rparr>) OpenFile s)"

text \<open>
  Lines 112-124.  A download without a path gets a new, empty temporary file and
  records its name; then the file is opened: \<^verbatim>\<open>'wb'\<close> empties it, \<^verbatim>\<open>'ab'\<close> keeps what it
  holds.
\<close>

definition do_open :: "env \<Rightarrow> nat \<Rightarrow> transfer \<Rightarrow> system \<Rightarrow> system" where
  "do_open e i t s =
     (let known = (case info_path (heap s (t_info t)) of
                     None \<Rightarrow> None
                   | Some p \<Rightarrow> if p = [] then None else Some p);
          p = (case known of
                 Some p \<Rightarrow> p
               | None \<Rightarrow> env_tempfile e (temp_count s) (case dict_get (t_req t) ''filename'' of
                                                        Inl x \<Rightarrow> JNull | Inr f \<Rightarrow> f));
          fs = (case known of Some p \<Rightarrow> files s | None \<Rightarrow> (files s)(p \<mapsto> []));
          content = (case fs p of None \<Rightarrow> [] | Some c \<Rightarrow> if t_mode t = WB then [] else c)
      in goto i (t\<lparr>t_path := p\<rparr>) CheckCancel
           (s\<lparr>files := fs(p \<mapsto> content),
              heap := (if known = None
                       then (heap s)(t_info t := (heap s (t_info t))\<lparr>info_path := Some p\<rparr>)
                       else heap s),
              temp_count := (if known = None then Suc (temp_count s) else temp_count s)\<rparr>))"

text \<open>Lines 126-128.\<close>

definition do_check_cancel :: "nat \<Rightarrow> transfer \<Rightarrow> system \<Rightarrow> system" where
  "do_check_cancel i t s =
     (if info_cancel (heap s (t_info t)) then finish i t (cancelled_event t) s
      else goto i t CheckPause s)"

text \<open>Lines 129-130.\<close>

definition do_check_pause :: "nat \<Rightarrow> transfer \<Rightarrow> system \<Rightarrow> system" where
  "do_check_pause i t s =
     (if info_pause (heap s (t_info t))
      then (goto i t PollPause s)\<lparr>sent := sent s @ [(Transfer i, paused_event t)]\<rparr>
      else goto i t ReadChunk s)"

text \<open>Line 132, the two operands of the loop condition; line 133 sleeps.\<close>

definition do_poll_pause :: "nat \<Rightarrow> transfer \<Rightarrow> system \<Rightarrow> system" where
  "do_poll_pause i t s =
     (if info_pause (heap s (t_info t)) then goto i t PollCancel s else goto i t AfterPoll s)"

definition do_poll_cancel :: "nat \<Rightarrow> transfer \<Rightarrow> system \<Rightarrow> system" where
  "do_poll_cancel i t s =
     (if \<not> info_cancel (heap s (t_info t)) then goto i t PollPause s else goto i t AfterPoll s)"

text \<open>
  Lines 134-139 and 150-151.  When the pause has been lifted the thread sets the mode
  to append and leaves the inner loop with \<^verbatim>\<open>break\<close>; the statements after the inner loop
  are the \<^verbatim>\<open>done\<close> message and \<^verbatim>\<open>return\<close>.
\<close>

definition do_after_poll :: "nat \<Rightarrow> transfer \<Rightarrow> system \<Rightarrow> system" where
  "do_after_poll i t s =
     (if info_cancel (heap s (t_info t)) then finish i t (cancelled_event t) s
      else finish i (t\<lparr>t_mode := AB\<rparr>) (done_event t) s)"

text \<open>Lines 140-147, and 150-151 when the body is exhausted.\<close>

definition do_read :: "nat \<Rightarrow> transfer \<Rightarrow> system \<Rightarrow> system" where
  "do_read i t s =
     (let chunk = take chunk_size (t_body t) in
      if chunk = [] then finish i t (done_event t) s
      else
        (let t' = t\<lparr>downloaded := downloaded t + length chunk,
                    t_body := drop chunk_size (t_body t)\<rparr>;
             old = (case files s (t_path t) of None \<Rightarrow> [] | Some c \<Rightarrow> c)
         in (goto i t' CheckCancel s)
              \<lparr>files := (files s)(t_path t \<mapsto> old @ chunk),
               heap := (heap s)(t_info t := (heap s (t_info t))\<lparr>info_downloaded := Some (downloaded t')\<rparr>),
               sent := sent s @ [(Transfer i, progress_event t')]\<rparr>))"

definition thread_step :: "env \<Rightarrow> nat \<Rightarrow> system \<Rightarrow> system" where
  "thread_step e i s =
     (if i < length (threads s) then
        (let t = threads s ! i in
         case t_pc t of
           Init \<Rightarrow> do_init i t s
         | Request \<Rightarrow> do_request e i t s
         | OpenFile \<Rightarrow> do_open e i t s
         | CheckCancel \<Rightarrow> do_check_cancel i t s
         | CheckPause \<Rightarrow> do_check_pause i t s
         | PollPause \<Rightarrow> do_poll_pause i t s
         | PollCancel \<Rightarrow> do_poll_cancel i t s
         | AfterPoll \<Rightarrow> do_after_poll i t s
         | ReadChunk \<Rightarrow> do_read i t s
         | Dead \<Rightarrow> s)
      else s)"

text \<open>
  Lines 152-154: an exception raised by the network or the file system where the thread
  performs input or output ends the transfer with an \<^verbatim>\<open>error\<close> message.
\<close>

definition fault_step :: "nat \<Rightarrow> string \<Rightarrow> system \<Rightarrow> system" where
  "fault_step i msg s =
     (if i < length (threads s) \<and> t_pc (threads s ! i) \<in> {Request, OpenFile, ReadChunk}
      then finish i (threads s ! i) (error_event (threads s ! i) msg) s
      else s)"

section \<open>Runs of the process\<close>

text \<open>
  The scheduler picks the context that moves next: the dispatcher, one of the download
  threads, a fault in the input or output of a thread, or the interrupt signal.  When
  \<^verbatim>\<open>main\<close> has ended the process is gone, and its daemon threads with it.
\<close>

datatype action = Main | Thread nat | Fault nat string | Sigint

definition step :: "env \<Rightarrow> action \<Rightarrow> system \<Rightarrow> system" where
  "step e a s =
     (case main s of
        Exited c \<Rightarrow> s
      | _ \<Rightarrow>
         (case a of
            Main \<Rightarrow> main_step e s
          | Thread i \<Rightarrow> thread_step e i s
          | Fault i msg \<Rightarrow> fault_step i msg s
          | Sigint \<Rightarrow> s\<lparr>main := Exited (script_exit (Raised KeyboardInterrupt))\<rparr>))"

fun run :: "env \<Rightarrow> action list \<Rightarrow> system \<Rightarrow> system" where
  "run e [] s = s"
| "run e (a # as) s = run e as (step e a s)"

definition emitted :: "nat \<Rightarrow> system \<Rightarrow> json list" where
  "emitted i s = map snd (filter (\<lambda>m. fst m = Transfer i) (sent s))"

definition recognized_tags :: "string list" where
  "recognized_tags =
     [''preroll'', ''download'', ''download_start'', ''download_pause'', ''download_resume'',
      ''download_cancel'', ''move'', ''choose_folder'', ''stat_path'']"

section \<open>A deterministic byte source\<close>

text \<open>
  An environment to run the host in: a server that holds one resource of fixed size and
  honours \<^verbatim>\<open>Range: bytes=k-\<close> (status 206, a \<^verbatim>\<open>Content-Range\<close> header and the bytes from
  \<open>k\<close> on; status 416, which \<^verbatim>\<open>urlopen\<close> raises as an error, when \<open>k\<close> is past the end),
  the codec of the previous section, identifiers and file names numbered in the order
  they are asked for, and collaborators that report failure.
\<close>

definition byte_source :: "bytes \<Rightarrow> json \<Rightarrow> nat option \<Rightarrow> string + response" where
  "byte_source data req rng =
     (let url = (case dict_get req ''url'' of Inr (JStr u) \<Rightarrow> u | _ \<Rightarrow> []) in
      case rng of
        None \<Rightarrow>
          Inr \<lparr>res_status = 200, res_url = url,
               res_content_length = Some (show_nat (length data)),
               res_content_range = None, res_body = data\<rparr>
      | Some k \<Rightarrow>
          if k < length data
          then Inr \<lparr>res_status = 206, res_url = url,
                    res_content_length = Some (show_nat (length data - k)),
                    res_content_range =
                      Some (''bytes '' @ show_nat k @ ''-'' @ show_nat (length data - 1)
                            @ ''/'' @ show_nat (length data)),
                    res_body = drop k data\<rparr>
          else Inl ''HTTP Error 416: Range Not Satisfiable'')"

definition test_env :: "bytes \<Rightarrow> env" where
  "test_env data =
     \<lparr>env_loads = json_loads,
      env_uuid4 = (\<lambda>k. k),
      env_urlopen = byte_source data,
      env_tempfile = (\<lambda>k f. ''/tmp/tmp'' @ show_nat k),
      env_handler = (\<lambda>k t msg. error_response ''unavailable'')\<rparr>"








section \<open>Theorems about the framed channel\<close>

lemma le32_split:
  fixes n :: nat
  assumes "n < 2 ^ 32"
  shows "n mod 256 + 256 * (n div 256 mod 256) + 65536 * (n div 65536 mod 256)
        + 16777216 * (n div 16777216 mod 256) = n"
proof -
  define a where "a = n div 256"
  define b where "b = a div 256"
  define c where "c = b div 256"
  have b_eq: "n div 65536 = b"
    unfolding b_def a_def by (simp add: div_mult2_eq[symmetric])
  have c_eq: "n div 16777216 = c"
    unfolding c_def b_def a_def by (simp add: div_mult2_eq[symmetric])
  have "c < 256" using assms unfolding c_eq[symmetric] by simp
  then have c_mod: "c mod 256 = c" by simp
  have n1: "n = n mod 256 + 256 * a" unfolding a_def by simp
  have a1: "a = a mod 256 + 256 * b" unfolding b_def by simp
  have b1: "b = b mod 256 + 256 * c" unfolding c_def by simp
  have "n mod 256 + 256 * (a mod 256) + 65536 * (b mod 256) + 16777216 * c
        = n mod 256 + 256 * (a mod 256 + 256 * (b mod 256 + 256 * c))"
    by simp
  also have "\<dots> = n" using n1 a1 b1 by simp
  finally show ?thesis
    unfolding b_eq c_eq c_mod a_def[symmetric] .
qed

lemma unpack_pack:
  assumes "n < 2 ^ 32"
  shows "\<exists>p. struct_pack_I n = Inr p \<and> length p = 4 \<and> struct_unpack_I p = Inr n"
  using assms le32_split [OF assms] by (simp add: struct_pack_I_def struct_unpack_I_def)

lemma read_frame:
  assumes "struct_pack_I (length data) = Inr p"
  shows "read_message loads (p @ data @ rest) = (loads data, rest)"
proof -
  have n: "length data < 2 ^ 32"
    using assms by (simp add: struct_pack_I_def split: if_splits)
  from unpack_pack [OF n] assms have p: "length p = 4" "struct_unpack_I p = Inr (length data)"
    by auto
  then have "p \<noteq> []" by auto
  with p show ?thesis
    by (simp add: read_message_def stdin_read_def)
qed

lemma dumps_ok_id:
  \<open>json_dumps (JObj [(''ok'', JBool True), (''id'', JStr ''a1'')]) = ''{"ok": true, "id": "a1"}''\<close>
  by code_simp

lemma loads_ok_id:
  \<open>json_loads ''{"ok": true, "id": "a1"}'' = Inr (JObj [(''ok'', JBool True), (''id'', JStr ''a1'')])\<close>
  by code_simp

lemma len24: \<open>length ''{"ok": true, "id": "a1"}'' = 24\<close>
  by simp

lemma pack24: "struct_pack_I 24 = Inr [CHR 0x18, CHR 0x00, CHR 0x00, CHR 0x00]"
  by (simp add: struct_pack_I_def, code_simp)

text \<open>
  Claim C5.  Writing a message as a frame and reading that frame back yields the message:
  when \<^verbatim>\<open>send_message\<close> succeeds (the payload is shorter than \<open>2 ^ 32\<close> bytes, so that its
  length fits the prefix) and the codec decodes what it encodes, \<^verbatim>\<open>read_message\<close> on the
  bytes that were appended to stdout, followed by anything, returns the message and
  leaves exactly what followed.
\<close>

theorem frame_round_trip:
  assumes "send_message dumps m out = Inr out'"
      and "loads (dumps m) = Inr m"
  shows "read_message loads (drop (length out) out' @ rest) = (Inr m, rest)"
proof -
  from assms(1) obtain p where p: "struct_pack_I (length (dumps m)) = Inr p"
    and out': "out' = out @ p @ dumps m"
    by (auto simp: send_message_def Let_def split: sum.splits)
  have "read_message loads (p @ dumps m @ rest) = (loads (dumps m), rest)"
    by (rule read_frame [OF p])
  with out' assms(2) show ?thesis by simp
qed

theorem frame_round_trip_witness:
  \<open>send_message json_dumps (JObj [(''ok'', JBool True), (''id'', JStr ''a1'')]) []
     = Inr ([CHR 0x18, CHR 0x00, CHR 0x00, CHR 0x00] @ ''{"ok": true, "id": "a1"}'')
   \<and> json_loads (json_dumps (JObj [(''ok'', JBool True), (''id'', JStr ''a1'')]))
     = Inr (JObj [(''ok'', JBool True), (''id'', JStr ''a1'')])
   \<and> read_message json_loads ([CHR 0x18, CHR 0x00, CHR 0x00, CHR 0x00] @ ''{"ok": true, "id": "a1"}'')
     = (Inr (JObj [(''ok'', JBool True), (''id'', JStr ''a1'')]), [])\<close>
proof -
  have s: \<open>send_message json_dumps (JObj [(''ok'', JBool True), (''id'', JStr ''a1'')]) []
     = Inr ([CHR 0x18, CHR 0x00, CHR 0x00, CHR 0x00] @ ''{"ok": true, "id": "a1"}'')\<close>
    unfolding send_message_def Let_def dumps_ok_id len24 pack24 by simp
  have l: \<open>json_loads (json_dumps (JObj [(''ok'', JBool True), (''id'', JStr ''a1'')]))
     = Inr (JObj [(''ok'', JBool True), (''id'', JStr ''a1'')])\<close>
    unfolding dumps_ok_id by (rule loads_ok_id)
  from frame_round_trip [where dumps = json_dumps and loads = json_loads and rest = "[]", OF s l] s l
  show ?thesis by simp
qed

lemma loads_null: "json_loads ''null'' = Inr JNull"
  by code_simp

lemma loads_12: "json_loads ''12'' = Inr (JInt 12)"
  by code_simp

text \<open>
  Claim C3, as amended.  \<^verbatim>\<open>read_message\<close> returns \<^verbatim>\<open>None\<close> when the stream ends before
  the first byte of a prefix, and raises \<^verbatim>\<open>struct.error\<close> when it ends after one to three
  bytes of it.  It never compares the number of payload bytes it received with the
  declared length: when the stream ends inside the payload, the result is whatever the
  decoder makes of the bytes that did arrive.
\<close>

theorem read_message_truncation:
  "(inp = [] \<longrightarrow> read_message loads inp = (Inr JNull, []))
   \<and> (inp \<noteq> [] \<and> length inp < 4 \<longrightarrow> read_message loads inp = (Inl StructError, []))
   \<and> (struct_unpack_I (take 4 inp) = Inr n \<and> length (drop 4 inp) < n
        \<longrightarrow> read_message loads inp = (loads (drop 4 inp), []))"
  by (auto simp: read_message_def stdin_read_def struct_unpack_I_def split: if_splits)

theorem read_message_truncation_witness:
  "struct_unpack_I (take 4 ([CHR 0x06, CHR 0x00, CHR 0x00, CHR 0x00] @ ''null'')) = Inr 6
   \<and> length (drop 4 ([CHR 0x06, CHR 0x00, CHR 0x00, CHR 0x00] @ ''null'')) < 6
   \<and> read_message json_loads ([CHR 0x06, CHR 0x00, CHR 0x00, CHR 0x00] @ ''null'') = (Inr JNull, [])"
proof -
  have u: "struct_unpack_I (take 4 ([CHR 0x06, CHR 0x00, CHR 0x00, CHR 0x00] @ ''null'')) = Inr 6"
    by (simp add: struct_unpack_I_def)
  have l: "length (drop 4 ([CHR 0x06, CHR 0x00, CHR 0x00, CHR 0x00] @ ''null'')) < 6"
    by simp
  from read_message_truncation [of "[CHR 0x06, CHR 0x00, CHR 0x00, CHR 0x00] @ ''null''" json_loads 6] u l
  show ?thesis by (simp add: loads_null)
qed

text \<open>
  The claim as stated fails: a frame that declares five payload bytes and delivers
  \<^verbatim>\<open>12\<close> before the stream ends is returned as the message \<^verbatim>\<open>12\<close>.
\<close>

theorem truncated_frame_accepted:
  "length ''12'' < 5
   \<and> struct_unpack_I [CHR 0x05, CHR 0x00, CHR 0x00, CHR 0x00] = Inr 5
   \<and> read_message json_loads ([CHR 0x05, CHR 0x00, CHR 0x00, CHR 0x00] @ ''12'') = (Inr (JInt 12), [])"
  by (simp add: read_message_def stdin_read_def struct_unpack_I_def loads_12)

section \<open>Theorems about the dispatcher and the retrieval loop\<close>







lemma loads_bogus:
  \<open>json_loads ''{"type": "bogus"}'' = Inr (JObj [(''type'', JStr ''bogus'')])\<close>
  by code_simp

lemma read_bogus:
  \<open>read_message json_loads ([CHR 0x11, CHR 0x00, CHR 0x00, CHR 0x00] @ ''{"type": "bogus"}'')
     = (Inr (JObj [(''type'', JStr ''bogus'')]), [])\<close>
  by (simp add: read_message_def stdin_read_def struct_unpack_I_def loads_bogus)

text \<open>
  Claim C7.  When the message just read is a dictionary whose \<^verbatim>\<open>type\<close> is none of the
  recognized tags (a missing \<^verbatim>\<open>type\<close> reads as \<^verbatim>\<open>None\<close> and is one such case), the
  dispatcher answers \<^verbatim>\<open>{"ok": false, "error": "unknown type"}\<close> and is back at
  \<^verbatim>\<open>read_message\<close> with the rest of the input: its first step prepares the answer, its
  second step sends it, and nothing else of the state changes.
\<close>

theorem unknown_type_response:
  assumes "main s = Reading"
    and "read_message (env_loads e) (stdin s) = (Inr (JObj kvs), rest)"
    and "dict_get (JObj kvs) ''type'' = Inr t"
    and "t \<notin> JStr ` set recognized_tags"
  shows "step e Main s = s\<lparr>stdin := rest, main := Responding (error_response ''unknown type'')\<rparr>
       \<and> step e Main (step e Main s)
           = s\<lparr>stdin := rest, sent := sent s @ [(Dispatcher, error_response ''unknown type'')],
                main := Reading\<rparr>"
proof -
  from assms(4) have "dispatch e t (JObj kvs) (s\<lparr>stdin := rest\<rparr>)
      = s\<lparr>stdin := rest, main := Responding (error_response ''unknown type'')\<rparr>"
    by (simp add: dispatch_def recognized_tags_def)
  with assms(1,2,3) have 1: "step e Main s
      = s\<lparr>stdin := rest, main := Responding (error_response ''unknown type'')\<rparr>"
    by (simp add: step_def main_step_def)
  then show ?thesis
    by (simp add: step_def main_step_def)
qed

theorem unknown_type_response_witness:
  \<open>main (boot ([CHR 0x11, CHR 0x00, CHR 0x00, CHR 0x00] @ ''{"type": "bogus"}'')) = Reading
   \<and> JStr ''bogus'' \<notin> JStr ` set recognized_tags
   \<and> sent (step (test_env []) Main (step (test_env []) Main
         (boot ([CHR 0x11, CHR 0x00, CHR 0x00, CHR 0x00] @ ''{"type": "bogus"}''))))
       = [(Dispatcher, JObj [(''ok'', JBool False), (''error'', JStr ''unknown type'')])]
   \<and> main (step (test_env []) Main (step (test_env []) Main
         (boot ([CHR 0x11, CHR 0x00, CHR 0x00, CHR 0x00] @ ''{"type": "bogus"}'')))) = Reading\<close>
proof -
  let ?inp = \<open>[CHR 0x11, CHR 0x00, CHR 0x00, CHR 0x00] @ ''{"type": "bogus"}''\<close>
  have a: "main (boot ?inp) = Reading"
    by (simp add: boot_def)
  have b: "read_message (env_loads (test_env [])) (stdin (boot ?inp))
      = (Inr (JObj [(''type'', JStr ''bogus'')]), [])"
    using read_bogus by (simp add: boot_def test_env_def)
  have c: "dict_get (JObj [(''type'', JStr ''bogus'')]) ''type'' = Inr (JStr ''bogus'')"
    by simp
  have d: "JStr ''bogus'' \<notin> JStr ` set recognized_tags"
    by (simp add: recognized_tags_def image_iff)
  note u = unknown_type_response [OF a b c d]
  have s2: "sent (step (test_env []) Main (step (test_env []) Main (boot ?inp)))
      = [(Dispatcher, JObj [(''ok'', JBool False), (''error'', JStr ''unknown type'')])]"
    unfolding conjunct2 [OF u] by (simp add: boot_def error_response_def)
  have m2: "main (step (test_env []) Main (step (test_env []) Main (boot ?inp))) = Reading"
    unfolding conjunct2 [OF u] by simp
  from a d s2 m2 show ?thesis by blast
qed

text \<open>
  Claim C9.  When the input is closed before any byte of a next frame, \<^verbatim>\<open>read_message\<close>
  returns \<^verbatim>\<open>None\<close>, the loop of \<^verbatim>\<open>main\<close> ends, and the process exits with status 0.  An
  interrupt, whenever it arrives, is caught by the script and the process exits with
  status 0 as well.  Once the process has exited nothing moves any more.
\<close>

theorem clean_exit:
  "(main s = Reading \<and> stdin s = [] \<longrightarrow> main (step e Main s) = Exited 0)
   \<and> ((\<forall>c. main s \<noteq> Exited c) \<longrightarrow> main (step e Sigint s) = Exited 0)
   \<and> (main s = Exited c \<longrightarrow> run e acts s = s)"
proof -
  have "run e acts s = s" if "main s = Exited c"
    using that by (induction acts) (simp_all add: step_def)
  moreover have "main (step e Sigint s) = Exited 0" if "\<forall>c. main s \<noteq> Exited c"
    using that by (cases "main s") (simp_all add: step_def script_exit_def)
  moreover have "main (step e Main s) = Exited 0" if "main s = Reading" "stdin s = []"
    using that by (simp add: step_def main_step_def read_message_def stdin_read_def script_exit_def)
  ultimately show ?thesis by blast
qed

theorem clean_exit_witness:
  "main (boot []) = Reading \<and> stdin (boot []) = []
   \<and> main (step (test_env []) Main (boot [])) = Exited 0
   \<and> main (step (test_env []) Sigint (boot [])) = Exited 0
   \<and> run (test_env []) [Main, Sigint] (step (test_env []) Main (boot []))
       = step (test_env []) Main (boot [])"
proof -
  have b: "main (boot []) = Reading" "stdin (boot []) = []" "\<forall>c. main (boot []) \<noteq> Exited c"
    by (simp_all add: boot_def)
  from clean_exit [of "boot []" "test_env []"] b
  have 1: "main (step (test_env []) Main (boot [])) = Exited 0"
    and 2: "main (step (test_env []) Sigint (boot [])) = Exited 0"
    by blast+
  from clean_exit [of "step (test_env []) Main (boot [])" "test_env []" 0 "[Main, Sigint]"] 1
  have "run (test_env []) [Main, Sigint] (step (test_env []) Main (boot []))
       = step (test_env []) Main (boot [])"
    by blast
  with b 1 2 show ?thesis by blast
qed

section \<open>Theorems about runs of the process\<close>

lemma goto_fields [simp]:
  "DOWNLOADS (goto i t p s) = DOWNLOADS s"
  "main (goto i t p s) = main s"
  "stdin (goto i t p s) = stdin s"
  "sent (goto i t p s) = sent s"
  "heap (goto i t p s) = heap s"
  "files (goto i t p s) = files s"
  "threads (goto i t p s) = (threads s)[i := t\<lparr>t_pc := p\<rparr>]"
  by (simp_all add: goto_def)

lemma finish_fields [simp]:
  "DOWNLOADS (finish i t ev s) = DOWNLOADS s"
  "main (finish i t ev s) = main s"
  "stdin (finish i t ev s) = stdin s"
  "sent (finish i t ev s) = sent s @ [(Transfer i, ev)]"
  "heap (finish i t ev s) = heap s"
  "files (finish i t ev s) = files s"
  "threads (finish i t ev s) = (threads s)[i := t\<lparr>t_pc := Dead\<rparr>]"
  by (simp_all add: finish_def)

lemmas do_defs = do_init_def do_request_def do_open_def do_check_cancel_def
  do_check_pause_def do_poll_pause_def do_poll_cancel_def do_after_poll_def do_read_def

lemma thread_step_registry [simp]: "DOWNLOADS (thread_step e i s) = DOWNLOADS s"
  by (simp add: thread_step_def do_defs Let_def split: pc.splits option.splits sum.splits)

lemma thread_step_main [simp]: "main (thread_step e i s) = main s"
  by (simp add: thread_step_def do_defs Let_def split: pc.splits option.splits sum.splits)

lemma fault_step_registry [simp]: "DOWNLOADS (fault_step i msg s) = DOWNLOADS s"
  by (simp add: fault_step_def)

lemma control_registry [simp]: "DOWNLOADS (control t msg s) = DOWNLOADS s"
  by (simp add: control_def split: sum.splits option.splits)

























end
